theory Spec2Isabelle
  imports Complex_Main "HOL-Library.Word"
begin

unbundle bit_operations_syntax

section \<open>Python strings\<close>

text \<open>
  A Python \<^verbatim>\<open>str\<close> is a sequence of Unicode code points, and \<^verbatim>\<open>len\<close> counts code
  points. The model keeps that: a string is the list of its code points. Lone surrogates
  (U+D800 .. U+DFFF) are legal elements of a \<^verbatim>\<open>str\<close>, so they are legal here too.
  \<open>lit\<close> embeds an ASCII literal of the source.
\<close>

type_synonym pystr = "nat list"

definition lit :: "string \<Rightarrow> pystr" where
  "lit s = map of_char s"

section \<open>The built-in \<^verbatim>\<open>hash\<close> on strings and \<^verbatim>\<open>get_cache_key\<close>\<close>

text \<open>
  \<^verbatim>\<open>get_cache_key\<close> is \<^verbatim>\<open>str(hash(query))\<close>. CPython (3.11 and later, 64 bit) hashes a
  string with SipHash-1-3 over the string's internal buffer (1, 2 or 4 bytes per code
  point, little endian), keyed with the secret of the interpreter process. The secret is
  drawn from the operating system's random source when the process starts, or expanded
  from \<^verbatim>\<open>PYTHONHASHSEED\<close> by a linear congruential generator (seed 0 gives the zero key).
  The empty string hashes to 0, and the value -1 is replaced by -2.
\<close>

type_synonym hash_secret = "64 word \<times> 64 word"

definition str_kind :: "pystr \<Rightarrow> nat" where
  "str_kind s = (if list_all (\<lambda>c. c < 256) s then 1
                 else if list_all (\<lambda>c. c < 65536) s then 2 else 4)"

fun le_bytes :: "nat \<Rightarrow> nat \<Rightarrow> 8 word list" where
  "le_bytes 0 c = []"
| "le_bytes (Suc k) c = of_nat (c mod 256) # le_bytes k (c div 256)"

definition str_data :: "pystr \<Rightarrow> 8 word list" where
  "str_data s = concat (map (le_bytes (str_kind s)) s)"

fun le64 :: "8 word list \<Rightarrow> 64 word" where
  "le64 [] = 0"
| "le64 (b # bs) = ucast b OR push_bit 8 (le64 bs)"

type_synonym sipstate = "64 word \<times> 64 word \<times> 64 word \<times> 64 word"

definition ROTATE :: "64 word \<Rightarrow> nat \<Rightarrow> 64 word" where
  "ROTATE x b = push_bit b x OR drop_bit (64 - b) x"

definition HALF_ROUND :: "sipstate \<Rightarrow> nat \<Rightarrow> nat \<Rightarrow> sipstate" where
  "HALF_ROUND v s t = (case v of (a, b, c, d) \<Rightarrow>
     let a = a + b; c = c + d;
         b = ROTATE b s XOR a;
         d = ROTATE d t XOR c;
         a = ROTATE a 32
     in (a, b, c, d))"

definition SINGLE_ROUND :: "sipstate \<Rightarrow> sipstate" where
  "SINGLE_ROUND v = (case HALF_ROUND v 13 16 of (v0, v1, v2, v3) \<Rightarrow>
     (case HALF_ROUND (v2, v1, v0, v3) 17 21 of (v2, v1, v0, v3) \<Rightarrow> (v0, v1, v2, v3)))"

definition sip_absorb :: "sipstate \<Rightarrow> 64 word \<Rightarrow> sipstate" where
  "sip_absorb v mi = (case v of (v0, v1, v2, v3) \<Rightarrow>
     (case SINGLE_ROUND (v0, v1, v2, v3 XOR mi) of
        (v0, v1, v2, v3) \<Rightarrow> (v0 XOR mi, v1, v2, v3)))"

text \<open>The \<^verbatim>\<open>while (src_sz >= 8)\<close> loop: whole 8-byte words, then the tail is left.\<close>

fun sip_blocks :: "sipstate \<Rightarrow> 8 word list \<Rightarrow> sipstate \<times> 8 word list" where
  "sip_blocks v (b0 # b1 # b2 # b3 # b4 # b5 # b6 # b7 # rest) =
     sip_blocks (sip_absorb v (le64 [b0, b1, b2, b3, b4, b5, b6, b7])) rest"
| "sip_blocks v tail = (v, tail)"

definition siphash13 :: "64 word \<Rightarrow> 64 word \<Rightarrow> 8 word list \<Rightarrow> 64 word" where
  "siphash13 k0 k1 src =
    (let b = push_bit 56 (of_nat (length src) :: 64 word);
         v = (k0 XOR 0x736f6d6570736575, k1 XOR 0x646f72616e646f6d,
              k0 XOR 0x6c7967656e657261, k1 XOR 0x7465646279746573)
     in case sip_blocks v src of (v, tail) \<Rightarrow>
        (case sip_absorb v (b OR le64 tail) of (v0, v1, v2, v3) \<Rightarrow>
        (case SINGLE_ROUND (SINGLE_ROUND (SINGLE_ROUND (v0, v1, v2 XOR 0xff, v3))) of
           (v0, v1, v2, v3) \<Rightarrow> (v0 XOR v1) XOR (v2 XOR v3))))"

definition py_hash :: "hash_secret \<Rightarrow> pystr \<Rightarrow> int" where
  "py_hash secret s =
     (if s = [] then 0
      else let x = sint (siphash13 (fst secret) (snd secret) (str_data s))
           in if x = - 1 then - 2 else x)"

text \<open>The expansion of \<^verbatim>\<open>PYTHONHASHSEED\<close> into the 24 secret bytes; the SipHash key is
  the first 16 of them.\<close>

fun lcg_urandom :: "32 word \<Rightarrow> nat \<Rightarrow> 8 word list" where
  "lcg_urandom x 0 = []"
| "lcg_urandom x (Suc n) =
     (let x = x * 214013 + 2531011 in ucast (drop_bit 16 x AND 0xff) # lcg_urandom x n)"

definition hash_secret_of_seed :: "nat \<Rightarrow> hash_secret" where
  "hash_secret_of_seed seed =
     (if seed = 0 then (0, 0)
      else let buf = lcg_urandom (of_nat seed) 24
           in (le64 (take 8 buf), le64 (take 8 (drop 8 buf))))"

text \<open>\<^verbatim>\<open>str\<close> of an integer: decimal digits, with a minus sign when negative.\<close>

fun digits :: "nat \<Rightarrow> pystr" where
  "digits n = (if n < 10 then [48 + n] else digits (n div 10) @ [48 + n mod 10])"

definition str_int :: "int \<Rightarrow> pystr" where
  "str_int i = (if i < 0 then 45 # digits (nat (- i)) else digits (nat i))"

definition get_cache_key :: "hash_secret \<Rightarrow> pystr \<Rightarrow> pystr" where
  "get_cache_key secret query = str_int (py_hash secret query)"

section \<open>Exceptions\<close>

text \<open>
  A call either returns a value or raises: the result type is \<open>py_error + 'a\<close>, with
  \<open>Inl\<close> for the exception that leaves the function. \<open>Raised m\<close> is an exception of a
  library whose \<^verbatim>\<open>str(e)\<close> is \<open>m\<close>. Where the source catches the exception and only
  reads \<^verbatim>\<open>str(e)\<close>, the library call returns \<open>pystr + 'a\<close>, with \<open>Inl m\<close> for an
  exception whose text is \<open>m\<close>.
\<close>

datatype py_error =
    UnicodeEncodeError | IndexError | KeyError | TypeError | ValueError
  | AttributeError | UnpicklingError | Raised pystr

definition bind_exc :: "py_error + 'a \<Rightarrow> ('a \<Rightarrow> py_error + 'b) \<Rightarrow> py_error + 'b" where
  "bind_exc m f = (case m of Inl e \<Rightarrow> Inl e | Inr x \<Rightarrow> f x)"

section \<open>String operations used by the source\<close>

text \<open>The code points that \<^verbatim>\<open>str.split()\<close> and \<^verbatim>\<open>str.strip()\<close> treat as whitespace.\<close>

definition isspace :: "nat \<Rightarrow> bool" where
  "isspace c \<longleftrightarrow>
     (9 \<le> c \<and> c \<le> 13) \<or> (28 \<le> c \<and> c \<le> 32) \<or> c = 133 \<or> c = 160 \<or> c = 5760
     \<or> (8192 \<le> c \<and> c \<le> 8202) \<or> c = 8232 \<or> c = 8233 \<or> c = 8239 \<or> c = 8287 \<or> c = 12288"

definition strip :: "pystr \<Rightarrow> pystr" where
  "strip s = rev (dropWhile isspace (rev (dropWhile isspace s)))"

text \<open>\<^verbatim>\<open>s.split()\<close>: the maximal runs of non-whitespace; \<open>w\<close> is the word being read.\<close>

fun split_from :: "pystr \<Rightarrow> pystr \<Rightarrow> pystr list" where
  "split_from w [] = (if w = [] then [] else [w])"
| "split_from w (c # cs) =
     (if isspace c then (if w = [] then split_from [] cs else w # split_from [] cs)
      else split_from (w @ [c]) cs)"

definition split :: "pystr \<Rightarrow> pystr list" where
  "split s = split_from [] s"

fun join :: "pystr \<Rightarrow> pystr list \<Rightarrow> pystr" where
  "join sep [] = []"
| "join sep [x] = x"
| "join sep (x # y # ys) = x @ sep @ join sep (y # ys)"

text \<open>\<^verbatim>\<open>' '.join(text.strip().split()) if text else ""\<close>\<close>

definition clean_text :: "pystr \<Rightarrow> pystr" where
  "clean_text text = (if text \<noteq> [] then join (lit '' '') (split (strip text)) else [])"

definition startswith :: "pystr \<Rightarrow> pystr \<Rightarrow> bool" where
  "startswith s p \<longleftrightarrow> take (length p) s = p"

text \<open>\<^verbatim>\<open>sub in s\<close> on strings.\<close>

fun contains :: "pystr \<Rightarrow> pystr \<Rightarrow> bool" where
  "contains [] sub = (sub = [])"
| "contains (c # cs) sub = (startswith (c # cs) sub \<or> contains cs sub)"

text \<open>\<^verbatim>\<open>s.split(sep)\<close> for a separator of one character, and list indexing.\<close>

fun split_on :: "nat \<Rightarrow> pystr \<Rightarrow> pystr list" where
  "split_on sep [] = [[]]"
| "split_on sep (c # cs) =
     (if c = sep then [] # split_on sep cs
      else (case split_on sep cs of [] \<Rightarrow> [[c]] | p # ps \<Rightarrow> (c # p) # ps))"

definition getitem :: "'a list \<Rightarrow> nat \<Rightarrow> py_error + 'a" where
  "getitem xs i = (if i < length xs then Inr (xs ! i) else Inl IndexError)"

text \<open>
  \<^verbatim>\<open>urllib.parse.quote(query)\<close>: the empty string is returned as it is; otherwise the
  string is encoded to UTF-8 with strict error handling, which raises
  \<^verbatim>\<open>UnicodeEncodeError\<close> on a surrogate code point, and every byte outside
  \<^verbatim>\<open>A-Z a-z 0-9 _ . - ~ /\<close> is written as \<^verbatim>\<open>%XX\<close>.
\<close>

definition utf8_encode_char :: "nat \<Rightarrow> py_error + nat list" where
  "utf8_encode_char c =
     (if c < 128 then Inr [c]
      else if c < 2048 then Inr [192 + c div 64, 128 + c mod 64]
      else if 55296 \<le> c \<and> c \<le> 57343 then Inl UnicodeEncodeError
      else if c < 65536 then Inr [224 + c div 4096, 128 + c div 64 mod 64, 128 + c mod 64]
      else Inr [240 + c div 262144, 128 + c div 4096 mod 64, 128 + c div 64 mod 64,
                128 + c mod 64])"

fun utf8_encode :: "pystr \<Rightarrow> py_error + nat list" where
  "utf8_encode [] = Inr []"
| "utf8_encode (c # cs) =
     bind_exc (utf8_encode_char c) (\<lambda>bs. bind_exc (utf8_encode cs) (\<lambda>rest. Inr (bs @ rest)))"

definition hex_digit :: "nat \<Rightarrow> nat" where
  "hex_digit d = (if d < 10 then 48 + d else 55 + d)"

definition always_safe :: "nat \<Rightarrow> bool" where
  "always_safe b \<longleftrightarrow>
     (65 \<le> b \<and> b \<le> 90) \<or> (97 \<le> b \<and> b \<le> 122) \<or> (48 \<le> b \<and> b \<le> 57)
     \<or> b = 95 \<or> b = 46 \<or> b = 45 \<or> b = 126"

definition quote_byte :: "nat \<Rightarrow> pystr" where
  "quote_byte b = (if always_safe b \<or> b = 47 then [b]
                   else [37, hex_digit (b div 16), hex_digit (b mod 16)])"

definition quote :: "pystr \<Rightarrow> py_error + pystr" where
  "quote string =
     (if string = [] then Inr string
      else bind_exc (utf8_encode string) (\<lambda>bs. Inr (concat (map quote_byte bs))))"


section \<open>The response envelope\<close>

text \<open>
  The dictionaries of the source, one record per dictionary shape. A value of the
  \<^verbatim>\<open>fetched_at\<close> entry is a naive or an aware \<^verbatim>\<open>datetime\<close>, a string, absent, or some
  other object (a cache file may hold anything). A naive \<^verbatim>\<open>datetime\<close> is its number of
  microseconds on the local time line, so that subtraction is integer subtraction.
\<close>

datatype pydatetime = Naive int | Aware int

datatype fetched_at_value = FNone | FStr pystr | FDatetime pydatetime | FOther

record search_result =
  position :: nat
  title :: pystr
  link :: pystr
  snippet :: pystr
  domain :: pystr
  date :: "pystr option"

record search_parameters =
  query :: pystr
  engine :: pystr
  gl :: pystr
  hl :: pystr
  search_type :: pystr
  fetched_at :: fetched_at_value
  latency_ms :: int

record debug_info =
  user_agent :: pystr
  ip :: pystr
  result_count :: nat

record envelope =
  status :: pystr
  message :: "pystr option"
  searchParameters :: search_parameters
  organic_results :: "search_result list"
  debug :: debug_info

section \<open>The interpreter process and the world around one call\<close>

text \<open>
  \<open>runtime\<close> is what is fixed for one interpreter process: the secret of \<^verbatim>\<open>hash\<close>, and
  the library functions the source calls and this development does not look into
  (\<^verbatim>\<open>datetime.isoformat\<close>, \<^verbatim>\<open>datetime.fromisoformat\<close>, and the HTML parser).
\<close>

record anchor =
  href :: pystr
  a_text :: pystr

text \<open>
  What the loop of \<^verbatim>\<open>brave_search\<close> reads of one element found by \<^verbatim>\<open>find_all\<close>:
  \<open>a_tag\<close> is \<^verbatim>\<open>item.find("a", href=True)\<close> with its \<^verbatim>\<open>href\<close> and its
  \<^verbatim>\<open>get_text(strip=True)\<close>, \<open>title_div\<close>, \<open>snippet_div\<close> and \<open>date_span\<close> are the
  \<^verbatim>\<open>get_text(strip=True)\<close> of the three optional sub-elements, and \<open>item_text\<close> is
  \<^verbatim>\<open>item.get_text(separator=' ', strip=True)\<close>.
\<close>

record candidate =
  a_tag :: "anchor option"
  title_div :: "pystr option"
  snippet_div :: "pystr option"
  item_text :: pystr
  date_span :: "pystr option"

record runtime =
  hash_secret :: hash_secret
  isoformat :: "pydatetime \<Rightarrow> pystr"
  fromisoformat :: "pystr \<Rightarrow> py_error + pydatetime"
  soup_find_all :: "pystr \<Rightarrow> pystr + candidate list"

text \<open>
  What happens to \<^verbatim>\<open>open(cache_file, "wb")\<close> and \<^verbatim>\<open>pickle.dump\<close>: the record is
  written, or \<^verbatim>\<open>open\<close> fails and the file is untouched, or the write breaks off and
  leaves a file that does not load.
\<close>

datatype write_outcome = Written | OpenFailed | DumpFailed

text \<open>
  \<open>env\<close> is what one call of \<^verbatim>\<open>brave_search\<close> reads from outside: the two readings of
  \<^verbatim>\<open>datetime.now()\<close> (in \<^verbatim>\<open>load_from_cache\<close> and when the envelope is built), the two
  readings of \<^verbatim>\<open>time.time()\<close> (seconds, taken as exact rationals), what faker draws,
  what the network answers to a request, and what the file system does to the write.
\<close>

record env =
  now_load :: int
  faker_user_agent :: pystr
  faker_ipv4_public :: pystr
  time_start :: rat
  http_get :: "pystr \<Rightarrow> (pystr \<rightharpoonup> pystr) \<Rightarrow> pystr + pystr"
  now_built :: int
  time_end :: rat
  cache_write :: write_outcome

section \<open>The cache\<close>

text \<open>
  The cache directory maps a file name to what \<^verbatim>\<open>pickle.load\<close> makes of the file:
  \<open>Unreadable\<close> is a file that fails to load or that holds no dictionary with a
  \<^verbatim>\<open>searchParameters\<close> dictionary in it.
\<close>

datatype cache_entry = Unreadable | Pickled envelope

type_synonym cache = "pystr \<rightharpoonup> cache_entry"

definition cache_file_of :: "pystr \<Rightarrow> pystr" where
  "cache_file_of cache_key = lit ''search_cache/'' @ cache_key @ lit ''.pkl''"

text \<open>\<^verbatim>\<open>datetime.now() - fetched_at\<close>, in microseconds.\<close>

fun datetime_sub :: "int \<Rightarrow> fetched_at_value \<Rightarrow> py_error + int" where
  "datetime_sub now (FDatetime (Naive d)) = Inr (now - d)"
| "datetime_sub now v = Inl TypeError"

text \<open>The body of the \<^verbatim>\<open>try\<close> block of \<^verbatim>\<open>load_from_cache\<close>.\<close>

definition load_from_cache_try ::
    "runtime \<Rightarrow> int \<Rightarrow> cache \<Rightarrow> pystr \<Rightarrow> py_error + envelope option" where
  "load_from_cache_try rt now c cache_key =
     (case c (cache_file_of cache_key) of
        None \<Rightarrow> Inr None
      | Some Unreadable \<Rightarrow> Inl UnpicklingError
      | Some (Pickled cached) \<Rightarrow>
          bind_exc
            (case fetched_at (searchParameters cached) of
               FStr s \<Rightarrow> bind_exc (fromisoformat rt s) (\<lambda>d. Inr (FDatetime d))
             | v \<Rightarrow> Inr v)
            (\<lambda>fetched. bind_exc (datetime_sub now fetched)
               (\<lambda>delta. if delta < 24 * 3600 * 1000000 then Inr (Some cached) else Inr None)))"

text \<open>\<^verbatim>\<open>except Exception: pass\<close>, then \<^verbatim>\<open>return None\<close>.\<close>

definition load_from_cache ::
    "runtime \<Rightarrow> int \<Rightarrow> cache \<Rightarrow> pystr \<Rightarrow> py_error + envelope option" where
  "load_from_cache rt now c cache_key =
     (case load_from_cache_try rt now c cache_key of Inl e \<Rightarrow> Inr None | Inr r \<Rightarrow> Inr r)"

text \<open>
  \<^verbatim>\<open>save_to_cache\<close> returns nothing; the model returns the dictionary it was given, as
  the call leaves it, and the cache directory. When \<^verbatim>\<open>fetched_at\<close> has no
  \<^verbatim>\<open>isoformat\<close> the exception is swallowed before anything is changed.
\<close>

definition save_to_cache ::
    "runtime \<Rightarrow> write_outcome \<Rightarrow> cache \<Rightarrow> pystr \<Rightarrow> envelope \<Rightarrow> envelope \<times> cache" where
  "save_to_cache rt w c cache_key data =
     (case fetched_at (searchParameters data) of
        FDatetime d \<Rightarrow>
          (let data' = data\<lparr>searchParameters :=
                         (searchParameters data)\<lparr>fetched_at := FStr (isoformat rt d)\<rparr>\<rparr>
           in case w of
                Written \<Rightarrow> (data', c(cache_file_of cache_key \<mapsto> Pickled data'))
              | OpenFailed \<Rightarrow> (data', c)
              | DumpFailed \<Rightarrow> (data', c(cache_file_of cache_key \<mapsto> Unreadable)))
      | v \<Rightarrow> (data, c))"


section \<open>\<^verbatim>\<open>brave_search\<close>\<close>

definition generate_headers :: "pystr \<Rightarrow> pystr \<Rightarrow> (pystr \<rightharpoonup> pystr)" where
  "generate_headers ua ipv4 = map_of
     [(lit ''User-Agent'', ua),
      (lit ''Accept'', lit ''text/html,application/xhtml+xml,application/xml;q=0.9,*/*;q=0.8''),
      (lit ''Accept-Encoding'', lit ''gzip, deflate''),
      (lit ''Accept-Language'', lit ''en-US,en;q=0.9,id-ID;q=0.8''),
      (lit ''X-Forwarded-For'', ipv4),
      (lit ''Connection'', lit ''keep-alive'')]"

text \<open>\<^verbatim>\<open>headers[key]\<close>\<close>

definition lookup :: "(pystr \<rightharpoonup> pystr) \<Rightarrow> pystr \<Rightarrow> py_error + pystr" where
  "lookup d k = (case d k of None \<Rightarrow> Inl KeyError | Some v \<Rightarrow> Inr v)"

text \<open>\<^verbatim>\<open>fetch_search_page\<close> catches \<^verbatim>\<open>httpx.HTTPError\<close> only to raise it again.\<close>

definition fetch_search_page :: "env \<Rightarrow> pystr \<Rightarrow> (pystr \<rightharpoonup> pystr) \<Rightarrow> pystr + pystr" where
  "fetch_search_page ev url headers = http_get ev url headers"

text \<open>
  The \<^verbatim>\<open>try\<close> block of \<^verbatim>\<open>brave_search\<close>: the request, then the parser and (after the
  block) \<^verbatim>\<open>find_all\<close>; \<open>Inl m\<close> is an exception caught by \<^verbatim>\<open>except Exception as e\<close>
  with \<^verbatim>\<open>str(e)\<close> equal to \<open>m\<close>.
\<close>

definition fetch_and_parse ::
    "runtime \<Rightarrow> env \<Rightarrow> pystr \<Rightarrow> (pystr \<rightharpoonup> pystr) \<Rightarrow> pystr + candidate list" where
  "fetch_and_parse rt ev url headers =
     (case fetch_search_page ev url headers of
        Inl m \<Rightarrow> Inl m
      | Inr response_text \<Rightarrow> soup_find_all rt response_text)"

text \<open>\<^verbatim>\<open>int(x)\<close> of a number: rounding towards zero.\<close>

definition py_int :: "rat \<Rightarrow> int" where
  "py_int x = (if 0 \<le> x then \<lfloor>x\<rfloor> else \<lceil>x\<rceil>)"

text \<open>
  The \<^verbatim>\<open>for item in soup.find_all(...)\<close> loop; \<open>results\<close> is the list built so
  far (the source calls it \<^verbatim>\<open>organic_results\<close>). Leaving the function with \<open>Inr\<close> is the \<^verbatim>\<open>break\<close> or the end of the items, a
  recursive call on the remaining items without a new result is \<^verbatim>\<open>continue\<close>.
\<close>

fun extract_results ::
    "candidate list \<Rightarrow> int \<Rightarrow> pystr option \<Rightarrow> search_result list
     \<Rightarrow> py_error + search_result list" where
  "extract_results [] limit filter_domain results = Inr results"
| "extract_results (item # items) limit filter_domain results =
     (if int (length results) \<ge> limit then Inr results
      else case a_tag item of
        None \<Rightarrow> extract_results items limit filter_domain results
      | Some a \<Rightarrow>
          if \<not> (startswith (href a) (lit ''http://'') \<or> startswith (href a) (lit ''https://''))
          then extract_results items limit filter_domain results
          else if (case filter_domain of None \<Rightarrow> False
                   | Some d \<Rightarrow> d \<noteq> [] \<and> \<not> contains (href a) d)
          then extract_results items limit filter_domain results
          else if length (clean_text (case snippet_div item of Some t \<Rightarrow> t
                                       | None \<Rightarrow> item_text item)) < 30
                  \<or> length (clean_text (case title_div item of Some t \<Rightarrow> t
                                          | None \<Rightarrow> a_text a)) < 5
          then extract_results items limit filter_domain results
          else (case getitem (split_on 47 (href a)) 2 of
                  Inl e \<Rightarrow> Inl e
                | Inr host \<Rightarrow> extract_results items limit filter_domain
                    (results @
                      [\<lparr>position = length results + 1,
                        title = clean_text (case title_div item of Some t \<Rightarrow> t
                                            | None \<Rightarrow> a_text a),
                        link = href a,
                        snippet = clean_text (case snippet_div item of Some t \<Rightarrow> t
                                              | None \<Rightarrow> item_text item),
                        domain = host,
                        date = (case date_span item of None \<Rightarrow> None
                                | Some t \<Rightarrow> if clean_text t \<noteq> [] then Some (clean_text t)
                                            else None)\<rparr>])))"

definition error_envelope :: "runtime \<Rightarrow> env \<Rightarrow> pystr \<Rightarrow> pystr \<Rightarrow> pystr \<Rightarrow> pystr \<Rightarrow> envelope" where
  "error_envelope rt ev q m ua ipv4 =
     \<lparr>status = lit ''error'',
      message = Some m,
      searchParameters =
        \<lparr>query = q, engine = lit ''brave'', gl = lit ''id'', hl = lit ''id-id'',
         search_type = lit ''search'',
         fetched_at = FStr (isoformat rt (Naive (now_built ev))),
         latency_ms = py_int ((time_end ev - time_start ev) * 1000)\<rparr>,
      organic_results = [],
      debug = \<lparr>user_agent = ua, ip = ipv4, result_count = 0\<rparr>\<rparr>"

definition success_envelope ::
    "env \<Rightarrow> pystr \<Rightarrow> search_result list \<Rightarrow> pystr \<Rightarrow> pystr \<Rightarrow> envelope" where
  "success_envelope ev q results ua ipv4 =
     \<lparr>status = lit ''success'',
      message = None,
      searchParameters =
        \<lparr>query = q, engine = lit ''brave'', gl = lit ''id'', hl = lit ''id-id'',
         search_type = lit ''search'',
         fetched_at = FDatetime (Naive (now_built ev)),
         latency_ms = py_int ((time_end ev - time_start ev) * 1000)\<rparr>,
      organic_results = results,
      debug = \<lparr>user_agent = ua, ip = ipv4, result_count = length results\<rparr>\<rparr>"

text \<open>
  The outcome of one call: what the caller gets (\<open>Inl\<close> is an exception that reaches
  the caller), the cache directory after the call, and the number of requests sent.
\<close>

record outcome =
  returned :: "py_error + envelope"
  cache_after :: cache
  requests :: nat

definition brave_search ::
    "runtime \<Rightarrow> env \<Rightarrow> cache \<Rightarrow> pystr \<Rightarrow> int \<Rightarrow> pystr option \<Rightarrow> outcome" where
  "brave_search rt ev c q limit filter_domain =
     (let cache_key = get_cache_key (hash_secret rt) q in
      case load_from_cache rt (now_load ev) c cache_key of
        Inl e \<Rightarrow> \<lparr>returned = Inl e, cache_after = c, requests = 0\<rparr>
      | Inr (Some cached_result) \<Rightarrow>
          \<lparr>returned = Inr cached_result, cache_after = c, requests = 0\<rparr>
      | Inr None \<Rightarrow>
         (let headers = generate_headers (faker_user_agent ev) (faker_ipv4_public ev) in
          case quote q of
            Inl e \<Rightarrow> \<lparr>returned = Inl e, cache_after = c, requests = 0\<rparr>
          | Inr encoded_query \<Rightarrow>
             (let url = lit ''https://search.brave.com/search?q='' @ encoded_query in
              case fetch_and_parse rt ev url headers of
                Inl m \<Rightarrow>
                  \<lparr>returned =
                     bind_exc (lookup headers (lit ''User-Agent'')) (\<lambda>ua.
                     bind_exc (lookup headers (lit ''X-Forwarded-For'')) (\<lambda>ipv4.
                       Inr (error_envelope rt ev q m ua ipv4))),
                   cache_after = c, requests = 1\<rparr>
              | Inr items \<Rightarrow>
                 (case bind_exc (extract_results items limit filter_domain []) (\<lambda>results.
                       bind_exc (lookup headers (lit ''User-Agent'')) (\<lambda>ua.
                       bind_exc (lookup headers (lit ''X-Forwarded-For'')) (\<lambda>ipv4.
                         Inr (success_envelope ev q results ua ipv4)))) of
                    Inl e \<Rightarrow> \<lparr>returned = Inl e, cache_after = c, requests = 1\<rparr>
                  | Inr result_data \<Rightarrow>
                      (case save_to_cache rt (cache_write ev) c cache_key result_data of
                         (result_data', c') \<Rightarrow>
                           \<lparr>returned = Inr result_data', cache_after = c',
                            requests = 1\<rparr>)))))"


section \<open>What the cache directory can hold\<close>

text \<open>
  The cache directory starts empty; it changes when \<^verbatim>\<open>brave_search\<close> runs (in any
  process, at any time, on any query) and when a file is removed from outside.
\<close>

inductive reachable :: "cache \<Rightarrow> bool" where
  start: "reachable Map.empty"
| call: "reachable c \<Longrightarrow> reachable (cache_after (brave_search rt ev c q limit filter_domain))"
| removed: "reachable c \<Longrightarrow> reachable (c(f := None))"

text \<open>The two shapes of the envelope, and the numbering of the results.\<close>

definition positions_from :: "nat \<Rightarrow> search_result list \<Rightarrow> bool" where
  "positions_from n rs \<longleftrightarrow> map position rs = [n + 1 ..< n + 1 + length rs]"

definition success_shape :: "envelope \<Rightarrow> bool" where
  "success_shape e \<longleftrightarrow>
     status e = lit ''success'' \<and> message e = None
     \<and> result_count (debug e) = length (organic_results e)"

definition error_shape :: "envelope \<Rightarrow> bool" where
  "error_shape e \<longleftrightarrow>
     status e = lit ''error'' \<and> message e \<noteq> None \<and> organic_results e = []
     \<and> result_count (debug e) = 0"

definition well_formed :: "envelope \<Rightarrow> bool" where
  "well_formed e \<longleftrightarrow> success_shape e \<or> error_shape e"

text \<open>What every record in the cache directory satisfies (shown below).\<close>

definition stored_ok :: "envelope \<Rightarrow> bool" where
  "stored_ok e \<longleftrightarrow> success_shape e \<and> positions_from 0 (organic_results e)"

text \<open>The time stamp a stored record carries, directly or as ISO text, if it has one
  that \<^verbatim>\<open>load_from_cache\<close> can subtract from \<^verbatim>\<open>datetime.now()\<close>.\<close>

definition stored_timestamp :: "runtime \<Rightarrow> envelope \<Rightarrow> int option" where
  "stored_timestamp rt e =
     (case fetched_at (searchParameters e) of
        FDatetime (Naive d) \<Rightarrow> Some d
      | FStr s \<Rightarrow> (case fromisoformat rt s of Inr (Naive d) \<Rightarrow> Some d | _ \<Rightarrow> None)
      | _ \<Rightarrow> None)"

section \<open>The single-page extractor (\<^verbatim>\<open>readle.py\<close>)\<close>

text \<open>
  What \<^verbatim>\<open>scrape_manual\<close> reads of the parsed page: \<open>find_article\<close>, \<open>find_main\<close> and
  \<open>body\<close> are \<^verbatim>\<open>soup.find("article")\<close>, \<^verbatim>\<open>soup.find("main")\<close> and \<^verbatim>\<open>soup.body\<close>, each
  given by the \<^verbatim>\<open>get_text()\<close> of its \<^verbatim>\<open>p\<close>, \<^verbatim>\<open>h2\<close> and \<^verbatim>\<open>h3\<close> elements in document
  order; \<open>title_tag\<close> is \<^verbatim>\<open>soup.title\<close> with its \<^verbatim>\<open>.string\<close>, which is \<^verbatim>\<open>None\<close> for a
  title element that has no single string in it.
\<close>

record parsed_page =
  find_article :: "pystr list option"
  find_main :: "pystr list option"
  body :: "pystr list option"
  title_tag :: "pystr option option"

record web =
  requests_get :: "pystr \<Rightarrow> py_error + pystr"
  parse_html :: "pystr \<Rightarrow> py_error + parsed_page"
  urlparse_netloc :: "pystr \<Rightarrow> py_error + pystr"

record article =
  page_title :: pystr
  content :: pystr
  source :: pystr
  page_domain :: pystr

text \<open>\<^verbatim>\<open>clean_text\<close> of \<^verbatim>\<open>readle.py\<close>: \<^verbatim>\<open>' '.join(text.strip().split())\<close>\<close>

definition readle_clean_text :: "pystr \<Rightarrow> pystr" where
  "readle_clean_text text = join (lit '' '') (split (strip text))"

text \<open>
  The region the content is read from: \<^verbatim>\<open>article\<close>, else \<^verbatim>\<open>main\<close>, else \<^verbatim>\<open>body\<close>
  (an element is always true, so \<^verbatim>\<open>not article\<close> holds exactly for \<^verbatim>\<open>None\<close>).
\<close>

definition content_region :: "parsed_page \<Rightarrow> pystr list option" where
  "content_region soup =
     (case find_article soup of Some r \<Rightarrow> Some r
      | None \<Rightarrow> (case find_main soup of Some r \<Rightarrow> Some r | None \<Rightarrow> body soup))"

definition scrape_manual :: "web \<Rightarrow> pystr \<Rightarrow> py_error + article" where
  "scrape_manual w url =
     bind_exc (requests_get w url) (\<lambda>res_text.
     bind_exc (parse_html w res_text) (\<lambda>soup.
     bind_exc (case title_tag soup of None \<Rightarrow> Inr (lit ''(no title)'')
               | Some None \<Rightarrow> Inl AttributeError
               | Some (Some s) \<Rightarrow> Inr (strip s)) (\<lambda>title.
     bind_exc (case content_region soup of None \<Rightarrow> Inl AttributeError
               | Some paragraphs \<Rightarrow> Inr paragraphs) (\<lambda>paragraphs.
     bind_exc (urlparse_netloc w url) (\<lambda>netloc.
       Inr \<lparr>page_title = title,
            content = join (lit [CHR 0x0A])
              (map readle_clean_text (filter (\<lambda>p. strip p \<noteq> []) paragraphs)),
            source = url,
            page_domain = netloc\<rparr>)))))"


section \<open>Example inputs\<close>

text \<open>
  Concrete inputs on which the statements below are instantiated. The time stamp is
  2026-11-04 12:00:00 in microseconds since 0001-01-01 00:00:00.
\<close>

definition example_candidate :: candidate where
  "example_candidate =
     \<lparr>a_tag = Some \<lparr>href = lit ''https://example.org/bread'', a_text = lit ''Sourdough bread''\<rparr>,
      title_div = None,
      snippet_div = Some (lit ''A  simple recipe for sourdough bread at home.''),
      item_text = lit ''Sourdough bread A simple recipe for sourdough bread at home.'',
      date_span = None\<rparr>"

definition example_runtime :: runtime where
  "example_runtime =
     \<lparr>hash_secret = hash_secret_of_seed 1,
      isoformat = (\<lambda>d. if d = Naive 63929390400000000 then lit ''2026-11-04T12:00:00''
                        else lit ''0001-01-01T00:00:00''),
      fromisoformat = (\<lambda>s. if s = lit ''2026-11-04T12:00:00''
                            then Inr (Naive 63929390400000000)
                            else if s = lit ''0001-01-01T00:00:00'' then Inr (Naive 0)
                            else Inl ValueError),
      soup_find_all = (\<lambda>text. Inr [example_candidate, example_candidate])\<rparr>"

definition example_env :: env where
  "example_env =
     \<lparr>now_load = 63929390399000000,
      faker_user_agent = lit ''Mozilla/5.0'',
      faker_ipv4_public = lit ''93.184.216.34'',
      time_start = 1000,
      http_get = (\<lambda>url headers. Inr (lit ''<html></html>'')),
      now_built = 63929390400000000,
      time_end = 1001 + 1 / 4,
      cache_write = Written\<rparr>"

definition example_result :: "nat \<Rightarrow> search_result" where
  "example_result n =
     \<lparr>position = n,
      title = lit ''Sourdough bread'',
      link = lit ''https://example.org/bread'',
      snippet = lit ''A simple recipe for sourdough bread at home.'',
      domain = lit ''example.org'',
      date = None\<rparr>"

definition example_page :: parsed_page where
  "example_page =
     \<lparr>find_article = None,
      find_main = Some [lit ''  Flour,   water  '', lit ''   '', lit ''and salt.''],
      body = Some [lit ''Menu'', lit ''Flour, water'', lit ''and salt.''],
      title_tag = Some (Some (lit '' Bread ''))\<rparr>"

definition example_web :: web where
  "example_web =
     \<lparr>requests_get = (\<lambda>url. Inr (lit ''<html></html>'')),
      parse_html = (\<lambda>text. Inr example_page),
      urlparse_netloc = (\<lambda>url. Inr (lit ''example.org''))\<rparr>"


definition example_envelope :: envelope where
  "example_envelope =
     \<lparr>status = lit ''success'',
      message = None,
      searchParameters =
        \<lparr>query = lit ''sourdough bread recipe'', engine = lit ''brave'', gl = lit ''id'',
         hl = lit ''id-id'', search_type = lit ''search'',
         fetched_at = FStr (lit ''2026-11-04T12:00:00''),
         latency_ms = 1250\<rparr>,
      organic_results = [example_result 1, example_result 2],
      debug = \<lparr>user_agent = lit ''Mozilla/5.0'', ip = lit ''93.184.216.34'',
               result_count = 2\<rparr>\<rparr>"

definition example_cache :: cache where
  "example_cache =
     [cache_file_of (get_cache_key (hash_secret_of_seed 1) (lit ''sourdough bread recipe''))
        \<mapsto> Pickled example_envelope]"

definition example_env_timeout :: env where
  "example_env_timeout = example_env\<lparr>http_get := (\<lambda>url headers. Inl (lit ''timed out''))\<rparr>"

section \<open>Properties\<close>

subsection \<open>Cache keys\<close>

lemma str_data_a: "str_data (lit ''a'') = [97]"
  by (simp add: str_data_def lit_def str_kind_def)

lemma secret_of_seed_1:
  "hash_secret_of_seed 1 = (12598376723466036009, 16999324916296290386)"
  by code_simp

lemma secret_of_seed_2:
  "hash_secret_of_seed 2 = (4611336564914921517, 11932672506142756049)"
  by code_simp

lemma siphash13_seed_1_a:
  "siphash13 12598376723466036009 16999324916296290386 [97] = 15433848885072367219"
  by (simp add: siphash13_def sip_absorb_def SINGLE_ROUND_def HALF_ROUND_def ROTATE_def)

lemma siphash13_seed_2_a:
  "siphash13 4611336564914921517 11932672506142756049 [97] = 6352457989142756797"
  by (simp add: siphash13_def sip_absorb_def SINGLE_ROUND_def HALF_ROUND_def ROTATE_def)

lemma py_hash_seed_1_a: "py_hash (hash_secret_of_seed 1) (lit ''a'') = - 3012895188637184397"
proof -
  have "sint (15433848885072367219 :: 64 word) = - 3012895188637184397"
    by code_simp
  moreover have "lit ''a'' \<noteq> []"
    by (simp add: lit_def)
  ultimately show ?thesis
    unfolding py_hash_def secret_of_seed_1 str_data_a
    by (simp add: siphash13_seed_1_a)
qed

lemma py_hash_seed_2_a: "py_hash (hash_secret_of_seed 2) (lit ''a'') = 6352457989142756797"
proof -
  have "sint (6352457989142756797 :: 64 word) = 6352457989142756797"
    by code_simp
  moreover have "lit ''a'' \<noteq> []"
    by (simp add: lit_def)
  ultimately show ?thesis
    unfolding py_hash_def secret_of_seed_2 str_data_a
    by (simp add: siphash13_seed_2_a)
qed

lemma get_cache_key_seed_1_a:
  "get_cache_key (hash_secret_of_seed 1) (lit ''a'') = lit ''-3012895188637184397''"
  unfolding get_cache_key_def py_hash_seed_1_a
  by (simp add: str_int_def lit_def)

lemma get_cache_key_seed_2_a:
  "get_cache_key (hash_secret_of_seed 2) (lit ''a'') = lit ''6352457989142756797''"
  unfolding get_cache_key_def py_hash_seed_2_a
  by (simp add: str_int_def lit_def)

text \<open>
  Claim C1 (stability of the cache key across process restarts). Within one process the
  key is a function of the query text, but the key of the query \<^verbatim>\<open>"a"\<close> in a process
  started with \<^verbatim>\<open>PYTHONHASHSEED=1\<close> is \<^verbatim>\<open>"-3012895188637184397"\<close>, and in a process
  started with \<^verbatim>\<open>PYTHONHASHSEED=2\<close> it is \<^verbatim>\<open>"6352457989142756797"\<close>: two runs of the
  program give the same query two different keys.
\<close>

theorem get_cache_key_differs_between_runs:
  "get_cache_key (hash_secret_of_seed 1) (lit ''a'') = lit ''-3012895188637184397''
   \<and> get_cache_key (hash_secret_of_seed 2) (lit ''a'') = lit ''6352457989142756797''
   \<and> get_cache_key (hash_secret_of_seed 1) (lit ''a'')
       \<noteq> get_cache_key (hash_secret_of_seed 2) (lit ''a'')"
  unfolding get_cache_key_seed_1_a get_cache_key_seed_2_a
  by (simp add: lit_def)

subsection \<open>The extraction loop\<close>

lemma length_split_on: "length (split_on sep s) = Suc (length (filter (\<lambda>c. c = sep) s))"
  by (induction s) (auto split: list.splits)

lemma startswith_append: "startswith u p \<Longrightarrow> \<exists>r. u = p @ r"
  unfolding startswith_def by (metis append_take_drop_id)

lemma slashes_http: "length (filter (\<lambda>c. c = 47) (lit ''http://'')) = 2"
  by (simp add: lit_def)

lemma slashes_https: "length (filter (\<lambda>c. c = 47) (lit ''https://'')) = 2"
  by (simp add: lit_def)

lemma getitem_split_url:
  assumes "startswith u (lit ''http://'') \<or> startswith u (lit ''https://'')"
  shows "\<exists>h. getitem (split_on 47 u) 2 = Inr h"
proof -
  from assms obtain p r where u: "u = p @ r" and p: "length (filter (\<lambda>c. c = 47) p) = 2"
    using startswith_append slashes_http slashes_https by blast
  have "2 \<le> length (filter (\<lambda>c. c = 47) u)"
    unfolding u using p by simp
  then show ?thesis
    by (simp add: getitem_def length_split_on)
qed

lemma lookup_user_agent: "lookup (generate_headers ua ipv4) (lit ''User-Agent'') = Inr ua"
  by (simp add: lookup_def generate_headers_def lit_def)

lemma lookup_forwarded: "lookup (generate_headers ua ipv4) (lit ''X-Forwarded-For'') = Inr ipv4"
  by (simp add: lookup_def generate_headers_def lit_def)


lemma positions_from_Nil: "positions_from n []"
  by (simp add: positions_from_def)

lemma positions_from_Cons:
  "positions_from n (r # rs) \<longleftrightarrow> position r = n + 1 \<and> positions_from (Suc n) rs"
  by (auto simp: positions_from_def upt_conv_Cons)

lemma extract_results_step:
  "(\<exists>r. position r = length acc + 1
        \<and> extract_results (item # items) limit fd acc
            = extract_results items limit fd (acc @ [r]))
   \<or> extract_results (item # items) limit fd acc = extract_results items limit fd acc
   \<or> (limit \<le> int (length acc) \<and> extract_results (item # items) limit fd acc = Inr acc)"
proof (cases "a_tag item")
  case None
  then show ?thesis by simp
next
  case (Some a)
  show ?thesis
  proof (cases "startswith (href a) (lit ''http://'') \<or> startswith (href a) (lit ''https://'')")
    case False
    with Some show ?thesis by simp
  next
    case True
    then obtain h where h: "getitem (split_on 47 (href a)) 2 = Inr h"
      using getitem_split_url by blast
    from Some True h show ?thesis
      by (force simp del: split_on.simps)
  qed
qed

lemma extract_results_acc:
  "\<exists>rs. extract_results items limit fd acc = Inr (acc @ rs)
        \<and> positions_from (length acc) rs
        \<and> int (length (acc @ rs)) \<le> max limit (int (length acc))"
proof (induction items arbitrary: acc)
  case Nil
  show ?case by (simp add: positions_from_Nil)
next
  case (Cons item items)
  from extract_results_step [of acc item items limit fd]
  consider (take) r where "position r = length acc + 1"
      "extract_results (item # items) limit fd acc = extract_results items limit fd (acc @ [r])"
      "\<not> limit \<le> int (length acc)"
    | (skip) "extract_results (item # items) limit fd acc = extract_results items limit fd acc"
    | (stop) "limit \<le> int (length acc)" "extract_results (item # items) limit fd acc = Inr acc"
    by (cases "limit \<le> int (length acc)") auto
  then show ?case
  proof cases
    case take
    from Cons.IH [of "acc @ [r]"] obtain rs where
      rs: "extract_results items limit fd (acc @ [r]) = Inr ((acc @ [r]) @ rs)"
        "positions_from (length (acc @ [r])) rs"
        "int (length ((acc @ [r]) @ rs)) \<le> max limit (int (length (acc @ [r])))"
      by blast
    have "extract_results (item # items) limit fd acc = Inr (acc @ (r # rs))"
      using take(2) rs(1) by simp
    moreover have "positions_from (length acc) (r # rs)"
      using take(1) rs(2) by (simp add: positions_from_Cons)
    moreover have "int (length (acc @ (r # rs))) \<le> max limit (int (length acc))"
      using rs(3) take(3) by simp
    ultimately show ?thesis by blast
  next
    case skip
    with Cons.IH [of acc] show ?thesis by simp
  next
    case stop
    then show ?thesis
      by (intro exI [of _ "[]"]) (simp add: positions_from_Nil)
  qed
qed

subsection \<open>The branches of \<^verbatim>\<open>brave_search\<close>\<close>

lemma load_from_cache_eq:
  "load_from_cache rt now c k =
     Inr (case c (cache_file_of k) of
            Some (Pickled e) \<Rightarrow>
              (case stored_timestamp rt e of
                 Some d \<Rightarrow> if now - d < 86400000000 then Some e else None
               | None \<Rightarrow> None)
          | _ \<Rightarrow> None)"
  by (simp add: load_from_cache_def load_from_cache_try_def stored_timestamp_def bind_exc_def
      split: option.splits cache_entry.splits fetched_at_value.splits pydatetime.splits
        sum.splits)

lemma brave_search_hit:
  assumes "load_from_cache rt (now_load ev) c (get_cache_key (hash_secret rt) q) = Inr (Some e)"
  shows "brave_search rt ev c q limit fd = \<lparr>returned = Inr e, cache_after = c, requests = 0\<rparr>"
  using assms by (simp add: brave_search_def)

lemma brave_search_quote_raises:
  assumes "load_from_cache rt (now_load ev) c (get_cache_key (hash_secret rt) q) = Inr None"
    and "quote q = Inl x"
  shows "brave_search rt ev c q limit fd = \<lparr>returned = Inl x, cache_after = c, requests = 0\<rparr>"
  using assms by (simp add: brave_search_def)

lemma brave_search_fetch_fails:
  assumes "load_from_cache rt (now_load ev) c (get_cache_key (hash_secret rt) q) = Inr None"
    and "quote q = Inr enc"
    and "fetch_and_parse rt ev (lit ''https://search.brave.com/search?q='' @ enc)
           (generate_headers (faker_user_agent ev) (faker_ipv4_public ev)) = Inl x"
  shows "brave_search rt ev c q limit fd =
     \<lparr>returned = Inr (error_envelope rt ev q x (faker_user_agent ev) (faker_ipv4_public ev)),
      cache_after = c, requests = 1\<rparr>"
  using assms
  by (simp add: brave_search_def lookup_user_agent lookup_forwarded bind_exc_def)

lemma brave_search_fetched:
  assumes "load_from_cache rt (now_load ev) c (get_cache_key (hash_secret rt) q) = Inr None"
    and "quote q = Inr enc"
    and "fetch_and_parse rt ev (lit ''https://search.brave.com/search?q='' @ enc)
           (generate_headers (faker_user_agent ev) (faker_ipv4_public ev)) = Inr items"
    and "extract_results items limit fd [] = Inr rs"
  shows "brave_search rt ev c q limit fd =
     \<lparr>returned = Inr (fst (save_to_cache rt (cache_write ev) c (get_cache_key (hash_secret rt) q)
                   (success_envelope ev q rs (faker_user_agent ev) (faker_ipv4_public ev)))),
      cache_after = snd (save_to_cache rt (cache_write ev) c (get_cache_key (hash_secret rt) q)
                   (success_envelope ev q rs (faker_user_agent ev) (faker_ipv4_public ev))),
      requests = 1\<rparr>"
  using assms
  by (simp add: brave_search_def lookup_user_agent lookup_forwarded bind_exc_def
      split: prod.splits)

lemma save_to_cache_success_envelope:
  "save_to_cache rt w c k (success_envelope ev q rs ua ipv4) =
     (let d = (success_envelope ev q rs ua ipv4)
                \<lparr>searchParameters := (searchParameters (success_envelope ev q rs ua ipv4))
                   \<lparr>fetched_at := FStr (isoformat rt (Naive (now_built ev)))\<rparr>\<rparr>
      in (d, case w of Written \<Rightarrow> c(cache_file_of k \<mapsto> Pickled d)
             | OpenFailed \<Rightarrow> c
             | DumpFailed \<Rightarrow> c(cache_file_of k \<mapsto> Unreadable)))"
  by (simp add: save_to_cache_def success_envelope_def Let_def split: write_outcome.splits)

lemma utf8_encode_cases:
  "(\<exists>bs. utf8_encode s = Inr bs) \<and> (\<forall>c\<in>set s. \<not> (55296 \<le> c \<and> c \<le> 57343))
   \<or> utf8_encode s = Inl UnicodeEncodeError \<and> (\<exists>c\<in>set s. 55296 \<le> c \<and> c \<le> 57343)"
  by (induction s) (auto simp: bind_exc_def utf8_encode_char_def)

lemma quote_cases:
  "(\<exists>enc. quote q = Inr enc) \<and> (\<forall>c\<in>set q. \<not> (55296 \<le> c \<and> c \<le> 57343))
   \<or> quote q = Inl UnicodeEncodeError \<and> (\<exists>c\<in>set q. 55296 \<le> c \<and> c \<le> 57343)"
  using utf8_encode_cases [of q] by (auto simp: quote_def bind_exc_def)

lemma brave_search_cases:
  obtains
    (hit) e where
      "load_from_cache rt (now_load ev) c (get_cache_key (hash_secret rt) q) = Inr (Some e)"
      "brave_search rt ev c q limit fd = \<lparr>returned = Inr e, cache_after = c, requests = 0\<rparr>"
  | (raises)
      "load_from_cache rt (now_load ev) c (get_cache_key (hash_secret rt) q) = Inr None"
      "\<exists>ch\<in>set q. 55296 \<le> ch \<and> ch \<le> 57343"
      "brave_search rt ev c q limit fd =
         \<lparr>returned = Inl UnicodeEncodeError, cache_after = c, requests = 0\<rparr>"
  | (failed) enc m where
      "load_from_cache rt (now_load ev) c (get_cache_key (hash_secret rt) q) = Inr None"
      "quote q = Inr enc"
      "fetch_and_parse rt ev (lit ''https://search.brave.com/search?q='' @ enc)
         (generate_headers (faker_user_agent ev) (faker_ipv4_public ev)) = Inl m"
      "brave_search rt ev c q limit fd =
         \<lparr>returned = Inr (error_envelope rt ev q m (faker_user_agent ev) (faker_ipv4_public ev)),
          cache_after = c, requests = 1\<rparr>"
  | (fetched) enc items rs where
      "load_from_cache rt (now_load ev) c (get_cache_key (hash_secret rt) q) = Inr None"
      "quote q = Inr enc"
      "fetch_and_parse rt ev (lit ''https://search.brave.com/search?q='' @ enc)
         (generate_headers (faker_user_agent ev) (faker_ipv4_public ev)) = Inr items"
      "extract_results items limit fd [] = Inr rs"
      "positions_from 0 rs"
      "int (length rs) \<le> max limit 0"
      "brave_search rt ev c q limit fd =
         \<lparr>returned = Inr (fst (save_to_cache rt (cache_write ev) c
              (get_cache_key (hash_secret rt) q)
              (success_envelope ev q rs (faker_user_agent ev) (faker_ipv4_public ev)))),
          cache_after = snd (save_to_cache rt (cache_write ev) c
              (get_cache_key (hash_secret rt) q)
              (success_envelope ev q rs (faker_user_agent ev) (faker_ipv4_public ev))),
          requests = 1\<rparr>"
proof -
  let ?k = "get_cache_key (hash_secret rt) q"
  obtain r where r: "load_from_cache rt (now_load ev) c ?k = Inr r"
    using load_from_cache_eq by blast
  show thesis
  proof (cases r)
    case (Some e)
    with r hit brave_search_hit show ?thesis by blast
  next
    case None
    with r have miss: "load_from_cache rt (now_load ev) c ?k = Inr None" by simp
    from quote_cases [of q] show ?thesis
    proof
      assume "quote q = Inl UnicodeEncodeError \<and> (\<exists>c\<in>set q. 55296 \<le> c \<and> c \<le> 57343)"
      with miss raises brave_search_quote_raises show ?thesis by blast
    next
      assume "(\<exists>enc. quote q = Inr enc) \<and> (\<forall>c\<in>set q. \<not> (55296 \<le> c \<and> c \<le> 57343))"
      then obtain enc where enc: "quote q = Inr enc" by blast
      let ?f = "fetch_and_parse rt ev (lit ''https://search.brave.com/search?q='' @ enc)
         (generate_headers (faker_user_agent ev) (faker_ipv4_public ev))"
      show ?thesis
      proof (cases ?f)
        case (Inl m)
        with miss enc failed brave_search_fetch_fails show ?thesis by blast
      next
        case (Inr items)
        from extract_results_acc [of items limit fd "[]"] obtain rs where
          rs: "extract_results items limit fd [] = Inr rs" "positions_from 0 rs"
            "int (length rs) \<le> max limit 0"
          by auto
        from brave_search_fetched [OF miss enc Inr rs(1)] fetched [OF miss enc Inr rs]
        show ?thesis by blast
      qed
    qed
  qed
qed

subsection \<open>What the cache directory holds\<close>

lemma stored_ok_saved:
  assumes "positions_from 0 rs"
  shows "stored_ok (fst (save_to_cache rt w c k (success_envelope ev q rs ua ipv4)))"
  using assms unfolding save_to_cache_success_envelope
  by (simp add: Let_def stored_ok_def success_shape_def success_envelope_def)

lemma cache_after_saved:
  "snd (save_to_cache rt w c k d) f = Some (Pickled e) \<Longrightarrow>
     c f = Some (Pickled e) \<or> e = fst (save_to_cache rt w c k d)"
  by (auto simp: save_to_cache_def Let_def
      split: fetched_at_value.splits write_outcome.splits if_splits)

lemma reachable_stored_ok:
  assumes "reachable c" and "c f = Some (Pickled e)"
  shows "stored_ok e"
  using assms
proof (induction arbitrary: f e)
  case start
  then show ?case by simp
next
  case (call c rt ev q limit filter_domain)
  show ?case
  proof (cases rule: brave_search_cases [of rt ev c q limit filter_domain])
    case (hit e')
    with call show ?thesis by simp
  next
    case raises
    with call show ?thesis by simp
  next
    case (failed enc m)
    with call show ?thesis by simp
  next
    case (fetched enc items rs)
    with call.prems have "c f = Some (Pickled e)
       \<or> e = fst (save_to_cache rt (cache_write ev) c (get_cache_key (hash_secret rt) q)
               (success_envelope ev q rs (faker_user_agent ev) (faker_ipv4_public ev)))"
      using cache_after_saved by simp
    with call.IH fetched(5) stored_ok_saved show ?thesis by blast
  qed
next
  case (removed c g)
  then show ?case by (simp split: if_splits)
qed

lemma positions_from_nth:
  assumes "positions_from 0 rs" and "i < length rs"
  shows "position (rs ! i) = i + 1"
proof -
  from assms(1) have eq: "map position rs = [1 ..< 1 + length rs]"
    by (simp add: positions_from_def)
  have "position (rs ! i) = map position rs ! i"
    using assms(2) by simp
  also have "\<dots> = [1 ..< 1 + length rs] ! i"
    by (simp only: eq)
  also have "\<dots> = 1 + i"
    using assms(2) by (intro nth_upt) linarith
  finally show ?thesis by simp
qed

lemma load_from_cache_stored:
  assumes "load_from_cache rt now c k = Inr (Some e)"
  shows "c (cache_file_of k) = Some (Pickled e)"
  using assms unfolding load_from_cache_eq
  by (simp split: option.splits cache_entry.splits if_splits)

lemma organic_results_saved:
  "organic_results (fst (save_to_cache rt w c k (success_envelope ev q rs ua ipv4))) = rs"
  unfolding save_to_cache_success_envelope
  by (simp add: Let_def success_envelope_def)

subsection \<open>The example inputs, evaluated\<close>

lemma clean_text_example_title: "clean_text (lit ''Sourdough bread'') = lit ''Sourdough bread''"
  by (simp add: clean_text_def lit_def strip_def split_def isspace_def)

lemma clean_text_example_snippet:
  "clean_text (lit ''A  simple recipe for sourdough bread at home.'')
     = lit ''A simple recipe for sourdough bread at home.''"
  by (simp add: clean_text_def lit_def strip_def split_def isspace_def)


lemma domain_example:
  "getitem (split_on 47 (lit ''https://example.org/bread'')) 2 = Inr (lit ''example.org'')"
  by (simp add: getitem_def lit_def)

lemma startswith_example: "startswith (lit ''https://example.org/bread'') (lit ''https://'')"
  by (simp add: startswith_def lit_def)

lemma length_example_title: "length (lit ''Sourdough bread'') = 15"
  by (simp add: lit_def)

lemma length_example_snippet:
  "length (lit ''A simple recipe for sourdough bread at home.'') = 44"
  by (simp add: lit_def)

lemma extract_results_example_step:
  "extract_results (example_candidate # items) limit None acc =
     (if limit \<le> int (length acc) then Inr acc
      else extract_results items limit None (acc @ [example_result (length acc + 1)]))"
  by (simp add: example_candidate_def example_result_def clean_text_example_title
      clean_text_example_snippet domain_example startswith_example length_example_title
      length_example_snippet del: split_on.simps)

lemma extract_results_example:
  "extract_results [example_candidate, example_candidate] 5 None []
     = Inr [example_result 1, example_result 2]"
  by (simp add: extract_results_example_step numeral_2_eq_2 del: extract_results.simps(2))

lemma extract_results_example_limit_1:
  "extract_results [example_candidate, example_candidate] 1 None [] = Inr [example_result 1]"
  by (simp add: extract_results_example_step del: extract_results.simps(2))

lemma quote_example:
  "quote (lit ''sourdough bread recipe'') = Inr (lit ''sourdough%20bread%20recipe'')"
  by (simp add: quote_def lit_def bind_exc_def utf8_encode_char_def quote_byte_def
      always_safe_def hex_digit_def)

lemma example_first_call:
  "brave_search example_runtime example_env Map.empty (lit ''sourdough bread recipe'') 5 None
     = \<lparr>returned = Inr example_envelope, cache_after = example_cache, requests = 1\<rparr>"
proof -
  have miss: "load_from_cache example_runtime (now_load example_env) Map.empty
      (get_cache_key (hash_secret example_runtime) (lit ''sourdough bread recipe'')) = Inr None"
    by (simp add: load_from_cache_eq)
  have page: "fetch_and_parse example_runtime example_env
      (lit ''https://search.brave.com/search?q='' @ lit ''sourdough%20bread%20recipe'')
      (generate_headers (faker_user_agent example_env) (faker_ipv4_public example_env))
      = Inr [example_candidate, example_candidate]"
    by (simp add: fetch_and_parse_def fetch_search_page_def example_env_def example_runtime_def)
  have saved: "save_to_cache example_runtime (cache_write example_env) Map.empty
      (get_cache_key (hash_secret example_runtime) (lit ''sourdough bread recipe''))
      (success_envelope example_env (lit ''sourdough bread recipe'')
         [example_result 1, example_result 2]
         (faker_user_agent example_env) (faker_ipv4_public example_env))
      = (example_envelope, example_cache)"
    unfolding save_to_cache_success_envelope
    by (simp add: Let_def success_envelope_def example_envelope_def example_cache_def
        example_env_def example_runtime_def py_int_def numeral_2_eq_2)
  show ?thesis
    unfolding brave_search_fetched [OF miss quote_example page extract_results_example] saved
    by simp
qed

lemma example_second_call:
  "brave_search example_runtime (example_env\<lparr>now_load := 63929394000000000\<rparr>) example_cache
      (lit ''sourdough bread recipe'') 1 (Some (lit ''wikipedia.org''))
     = \<lparr>returned = Inr example_envelope, cache_after = example_cache, requests = 0\<rparr>"
proof -
  have "stored_timestamp example_runtime example_envelope = Some 63929390400000000"
    by (simp add: stored_timestamp_def example_envelope_def example_runtime_def)
  then have "load_from_cache example_runtime
      (now_load (example_env\<lparr>now_load := 63929394000000000\<rparr>)) example_cache
      (get_cache_key (hash_secret example_runtime) (lit ''sourdough bread recipe''))
      = Inr (Some example_envelope)"
    by (simp add: load_from_cache_eq example_cache_def example_runtime_def)
  then show ?thesis by (rule brave_search_hit)
qed

lemma reachable_example_cache: "reachable example_cache"
proof -
  have "reachable (cache_after (brave_search example_runtime example_env Map.empty
      (lit ''sourdough bread recipe'') 5 None))"
    by (rule reachable.call) (rule reachable.start)
  then show ?thesis by (simp add: example_first_call)
qed

lemma status_distinct: "lit ''success'' \<noteq> lit ''error''" "lit ''error'' \<noteq> lit ''success''"
  by (simp_all add: lit_def)

subsection \<open>Results of one call\<close>

text \<open>
  Claim C6 (limit bound). For every limit \<open>L \<ge> 0\<close> and every list of candidate elements
  the loop returns a list of at most \<open>L\<close> results (in particular none for \<open>L = 0\<close>), and
  an envelope returned by a call that sent a request (a page was fetched, or the fetch
  failed) holds at most \<open>L\<close> results.
\<close>

theorem limit_bound:
  "0 \<le> limit \<longrightarrow>
     (\<exists>rs. extract_results items limit filter_domain [] = Inr rs \<and> int (length rs) \<le> limit)
     \<and> (\<forall>e. requests (brave_search rt ev c q limit filter_domain) = 1
             \<and> returned (brave_search rt ev c q limit filter_domain) = Inr e
           \<longrightarrow> int (length (organic_results e)) \<le> limit)"
proof (intro impI conjI allI)
  assume "0 \<le> limit"
  with extract_results_acc [of items limit filter_domain "[]"]
  show "\<exists>rs. extract_results items limit filter_domain [] = Inr rs \<and> int (length rs) \<le> limit"
    by auto
next
  fix e
  assume limit: "0 \<le> limit"
    and call: "requests (brave_search rt ev c q limit filter_domain) = 1
      \<and> returned (brave_search rt ev c q limit filter_domain) = Inr e"
  show "int (length (organic_results e)) \<le> limit"
  proof (cases rule: brave_search_cases [of rt ev c q limit filter_domain])
    case (hit e')
    with call show ?thesis by simp
  next
    case raises
    with call show ?thesis by simp
  next
    case (failed enc m)
    with call limit show ?thesis by (auto simp: error_envelope_def)
  next
    case (fetched enc items rs)
    with call limit show ?thesis by (auto simp: organic_results_saved)
  qed
qed

theorem limit_bound_witness:
  "(0::int) \<le> 1
   \<and> extract_results [example_candidate, example_candidate] 1 None [] = Inr [example_result 1]
   \<and> requests (brave_search example_runtime example_env Map.empty
        (lit ''sourdough bread recipe'') 5 None) = 1
   \<and> returned (brave_search example_runtime example_env Map.empty
        (lit ''sourdough bread recipe'') 5 None) = Inr example_envelope
   \<and> int (length (organic_results example_envelope)) \<le> 5"
  using limit_bound [of 5 "[example_candidate, example_candidate]" None example_runtime
      example_env Map.empty "lit ''sourdough bread recipe''"]
  by (simp add: example_first_call extract_results_example extract_results_example_limit_1
      del: extract_results.simps(2))

text \<open>
  Claim C7 (position contract). In every success envelope that \<^verbatim>\<open>brave_search\<close> returns,
  from a fetched page or from the cache directory, the \<open>i\<close>-th result carries position
  \<open>i + 1\<close>: positions count the accepted results, starting at 1, in the order of
  acceptance.
\<close>

theorem position_contract:
  assumes "reachable c"
    and "returned (brave_search rt ev c q limit filter_domain) = Inr e"
    and "status e = lit ''success''"
  shows "\<forall>i < length (organic_results e). position (organic_results e ! i) = i + 1"
proof -
  have "positions_from 0 (organic_results e)"
  proof (cases rule: brave_search_cases [of rt ev c q limit filter_domain])
    case (hit e')
    with assms(2) have "c (cache_file_of (get_cache_key (hash_secret rt) q)) = Some (Pickled e)"
      using load_from_cache_stored by simp
    with assms(1) have "stored_ok e" by (rule reachable_stored_ok)
    then show ?thesis by (simp add: stored_ok_def)
  next
    case raises
    with assms(2) show ?thesis by simp
  next
    case (failed enc m)
    with assms(2,3) show ?thesis by (auto simp: error_envelope_def status_distinct)
  next
    case (fetched enc items rs)
    with assms(2) show ?thesis by (auto simp: organic_results_saved)
  qed
  then show ?thesis by (simp add: positions_from_nth)
qed

theorem position_contract_witness:
  "reachable example_cache
   \<and> returned (brave_search example_runtime (example_env\<lparr>now_load := 63929394000000000\<rparr>)
        example_cache (lit ''sourdough bread recipe'') 1 (Some (lit ''wikipedia.org'')))
       = Inr example_envelope
   \<and> status example_envelope = lit ''success''
   \<and> length (organic_results example_envelope) = 2
   \<and> position (organic_results example_envelope ! 0) = 1
   \<and> position (organic_results example_envelope ! 1) = 2"
proof -
  have call: "returned (brave_search example_runtime
        (example_env\<lparr>now_load := 63929394000000000\<rparr>)
        example_cache (lit ''sourdough bread recipe'') 1 (Some (lit ''wikipedia.org'')))
       = Inr example_envelope"
    by (simp add: example_second_call)
  have ok: "status example_envelope = lit ''success''"
    by (simp add: example_envelope_def)
  from position_contract [OF reachable_example_cache call ok] call ok reachable_example_cache
  show ?thesis by (simp add: example_envelope_def example_result_def)
qed

text \<open>
  Claim C8 (result count). In every envelope that \<^verbatim>\<open>brave_search\<close> returns, success or
  error, fresh or from the cache directory, \<^verbatim>\<open>debug.result_count\<close> is the length of
  \<^verbatim>\<open>organic_results\<close>; an error envelope has no results, count 0 and a message.
\<close>

theorem result_count_matches:
  assumes "reachable c"
    and "returned (brave_search rt ev c q limit filter_domain) = Inr e"
  shows "result_count (debug e) = length (organic_results e)
     \<and> (status e = lit ''error'' \<longrightarrow>
          organic_results e = [] \<and> result_count (debug e) = 0 \<and> (\<exists>m. message e = Some m))"
proof (cases rule: brave_search_cases [of rt ev c q limit filter_domain])
  case (hit e')
  with assms(2) have "c (cache_file_of (get_cache_key (hash_secret rt) q)) = Some (Pickled e)"
    using load_from_cache_stored by simp
  with assms(1) have "stored_ok e" by (rule reachable_stored_ok)
  then show ?thesis by (simp add: stored_ok_def success_shape_def status_distinct)
next
  case raises
  with assms(2) show ?thesis by simp
next
  case (failed enc m)
  with assms(2) show ?thesis by (auto simp: error_envelope_def)
next
  case (fetched enc items rs)
  with assms(2) have "e = fst (save_to_cache rt (cache_write ev) c
      (get_cache_key (hash_secret rt) q)
      (success_envelope ev q rs (faker_user_agent ev) (faker_ipv4_public ev)))"
    by simp
  then show ?thesis
    unfolding save_to_cache_success_envelope
    by (simp add: Let_def success_envelope_def status_distinct)
qed


lemma example_failed_call:
  "brave_search example_runtime example_env_timeout Map.empty (lit ''sourdough bread recipe'')
      5 None
     = \<lparr>returned = Inr (error_envelope example_runtime example_env_timeout
          (lit ''sourdough bread recipe'') (lit ''timed out'') (lit ''Mozilla/5.0'')
          (lit ''93.184.216.34'')),
        cache_after = Map.empty, requests = 1\<rparr>"
proof -
  have miss: "load_from_cache example_runtime (now_load example_env_timeout) Map.empty
      (get_cache_key (hash_secret example_runtime) (lit ''sourdough bread recipe'')) = Inr None"
    by (simp add: load_from_cache_eq)
  have page: "fetch_and_parse example_runtime example_env_timeout
      (lit ''https://search.brave.com/search?q='' @ lit ''sourdough%20bread%20recipe'')
      (generate_headers (faker_user_agent example_env_timeout)
         (faker_ipv4_public example_env_timeout))
      = Inl (lit ''timed out'')"
    by (simp add: fetch_and_parse_def fetch_search_page_def example_env_timeout_def)
  show ?thesis
    unfolding brave_search_fetch_fails [OF miss quote_example page]
    by (simp add: example_env_timeout_def example_env_def)
qed

theorem result_count_matches_witness:
  "reachable example_cache
   \<and> returned (brave_search example_runtime (example_env\<lparr>now_load := 63929394000000000\<rparr>)
        example_cache (lit ''sourdough bread recipe'') 1 (Some (lit ''wikipedia.org'')))
       = Inr example_envelope
   \<and> result_count (debug example_envelope) = length (organic_results example_envelope)
   \<and> reachable Map.empty
   \<and> (\<exists>e. returned (brave_search example_runtime example_env_timeout Map.empty
              (lit ''sourdough bread recipe'') 5 None) = Inr e
          \<and> status e = lit ''error'' \<and> organic_results e = []
          \<and> result_count (debug e) = 0 \<and> message e = Some (lit ''timed out''))"
proof -
  have hit: "returned (brave_search example_runtime
        (example_env\<lparr>now_load := 63929394000000000\<rparr>)
        example_cache (lit ''sourdough bread recipe'') 1 (Some (lit ''wikipedia.org'')))
       = Inr example_envelope"
    by (simp add: example_second_call)
  have failed: "returned (brave_search example_runtime example_env_timeout Map.empty
        (lit ''sourdough bread recipe'') 5 None)
      = Inr (error_envelope example_runtime example_env_timeout
          (lit ''sourdough bread recipe'') (lit ''timed out'') (lit ''Mozilla/5.0'')
          (lit ''93.184.216.34''))"
    by (simp add: example_failed_call)
  from result_count_matches [OF reachable_example_cache hit]
    result_count_matches [OF reachable.start failed]
    hit failed reachable_example_cache reachable.start
  show ?thesis by (simp add: error_envelope_def)
qed

subsection \<open>Reading the cache\<close>

text \<open>
  Claim C5 (cache lookup). \<^verbatim>\<open>load_from_cache\<close> never raises. It returns \<^verbatim>\<open>None\<close> when the
  file is missing, when it does not load, when \<^verbatim>\<open>fetched_at\<close> is absent, is no time stamp
  (another object, an aware \<^verbatim>\<open>datetime\<close>, a string that \<^verbatim>\<open>fromisoformat\<close> rejects), or
  lies 24 hours or more before \<^verbatim>\<open>datetime.now()\<close>. It returns the stored record when the
  time stamp is less than 24 hours old, and only then.
\<close>

theorem load_from_cache_miss_or_fresh:
  "(\<exists>r. load_from_cache rt now c k = Inr r)
   \<and> (c (cache_file_of k) = None \<longrightarrow> load_from_cache rt now c k = Inr None)
   \<and> (c (cache_file_of k) = Some Unreadable \<longrightarrow> load_from_cache rt now c k = Inr None)
   \<and> (\<forall>e. c (cache_file_of k) = Some (Pickled e) \<longrightarrow>
         (fetched_at (searchParameters e) = FNone \<longrightarrow> load_from_cache rt now c k = Inr None)
       \<and> (fetched_at (searchParameters e) = FOther \<longrightarrow> load_from_cache rt now c k = Inr None)
       \<and> (\<forall>d. fetched_at (searchParameters e) = FDatetime (Aware d)
              \<longrightarrow> load_from_cache rt now c k = Inr None)
       \<and> (\<forall>s x. fetched_at (searchParameters e) = FStr s \<and> fromisoformat rt s = Inl x
              \<longrightarrow> load_from_cache rt now c k = Inr None)
       \<and> (\<forall>d. stored_timestamp rt e = Some d \<and> 24 * 3600 * 1000000 \<le> now - d
              \<longrightarrow> load_from_cache rt now c k = Inr None)
       \<and> (\<forall>d. stored_timestamp rt e = Some d \<and> now - d < 24 * 3600 * 1000000
              \<longrightarrow> load_from_cache rt now c k = Inr (Some e)))
   \<and> (\<forall>e. load_from_cache rt now c k = Inr (Some e) \<longrightarrow>
         c (cache_file_of k) = Some (Pickled e)
         \<and> (\<exists>d. stored_timestamp rt e = Some d \<and> now - d < 24 * 3600 * 1000000))"
proof -
  have returns: "\<exists>r. load_from_cache rt now c k = Inr r"
    by (simp add: load_from_cache_eq)
  have missing: "c (cache_file_of k) = None \<Longrightarrow> load_from_cache rt now c k = Inr None"
    by (simp add: load_from_cache_eq)
  have unreadable:
    "c (cache_file_of k) = Some Unreadable \<Longrightarrow> load_from_cache rt now c k = Inr None"
    by (simp add: load_from_cache_eq)
  have pickled: "load_from_cache rt now c k =
      Inr (case stored_timestamp rt e of
             Some d \<Rightarrow> if now - d < 86400000000 then Some e else None
           | None \<Rightarrow> None)"
    if "c (cache_file_of k) = Some (Pickled e)" for e
    using that by (simp add: load_from_cache_eq)
  have absent: "load_from_cache rt now c k = Inr None"
    if "c (cache_file_of k) = Some (Pickled e)" "fetched_at (searchParameters e) = FNone" for e
    using pickled [OF that(1)] that(2) by (simp add: stored_timestamp_def)
  have other: "load_from_cache rt now c k = Inr None"
    if "c (cache_file_of k) = Some (Pickled e)" "fetched_at (searchParameters e) = FOther" for e
    using pickled [OF that(1)] that(2) by (simp add: stored_timestamp_def)
  have aware: "load_from_cache rt now c k = Inr None"
    if "c (cache_file_of k) = Some (Pickled e)"
      "fetched_at (searchParameters e) = FDatetime (Aware d)" for e d
    using pickled [OF that(1)] that(2) by (simp add: stored_timestamp_def)
  have invalid: "load_from_cache rt now c k = Inr None"
    if "c (cache_file_of k) = Some (Pickled e)"
      "fetched_at (searchParameters e) = FStr s \<and> fromisoformat rt s = Inl x" for e s x
    using pickled [OF that(1)] that(2) by (simp add: stored_timestamp_def)
  have stale: "load_from_cache rt now c k = Inr None"
    if "c (cache_file_of k) = Some (Pickled e)"
      "stored_timestamp rt e = Some d \<and> 24 * 3600 * 1000000 \<le> now - d" for e d
    using pickled [OF that(1)] that(2) by simp
  have fresh: "load_from_cache rt now c k = Inr (Some e)"
    if "c (cache_file_of k) = Some (Pickled e)"
      "stored_timestamp rt e = Some d \<and> now - d < 24 * 3600 * 1000000" for e d
    using pickled [OF that(1)] that(2) by simp
  have hit: "c (cache_file_of k) = Some (Pickled e)
      \<and> (\<exists>d. stored_timestamp rt e = Some d \<and> now - d < 24 * 3600 * 1000000)"
    if "load_from_cache rt now c k = Inr (Some e)" for e
  proof -
    from that have stored: "c (cache_file_of k) = Some (Pickled e)"
      by (rule load_from_cache_stored)
    from that show ?thesis
      unfolding pickled [OF stored] using stored
      by (simp split: option.splits if_splits)
  qed
  from absent other aware invalid stale fresh
  have entry: "\<forall>e. c (cache_file_of k) = Some (Pickled e) \<longrightarrow>
         (fetched_at (searchParameters e) = FNone \<longrightarrow> load_from_cache rt now c k = Inr None)
       \<and> (fetched_at (searchParameters e) = FOther \<longrightarrow> load_from_cache rt now c k = Inr None)
       \<and> (\<forall>d. fetched_at (searchParameters e) = FDatetime (Aware d)
              \<longrightarrow> load_from_cache rt now c k = Inr None)
       \<and> (\<forall>s x. fetched_at (searchParameters e) = FStr s \<and> fromisoformat rt s = Inl x
              \<longrightarrow> load_from_cache rt now c k = Inr None)
       \<and> (\<forall>d. stored_timestamp rt e = Some d \<and> 24 * 3600 * 1000000 \<le> now - d
              \<longrightarrow> load_from_cache rt now c k = Inr None)
       \<and> (\<forall>d. stored_timestamp rt e = Some d \<and> now - d < 24 * 3600 * 1000000
              \<longrightarrow> load_from_cache rt now c k = Inr (Some e))"
    by blast
  from returns missing unreadable entry hit show ?thesis
    by blast
qed

theorem load_from_cache_miss_or_fresh_witness:
  "load_from_cache example_runtime 63929394000000000 example_cache
      (get_cache_key (hash_secret_of_seed 1) (lit ''sourdough bread recipe''))
     = Inr (Some example_envelope)
   \<and> load_from_cache example_runtime 63929476800000000 example_cache
      (get_cache_key (hash_secret_of_seed 1) (lit ''sourdough bread recipe'')) = Inr None
   \<and> load_from_cache example_runtime 63929480400000000 example_cache
      (get_cache_key (hash_secret_of_seed 1) (lit ''sourdough bread recipe'')) = Inr None
   \<and> load_from_cache example_runtime 63929394000000000 Map.empty
      (get_cache_key (hash_secret_of_seed 1) (lit ''sourdough bread recipe'')) = Inr None"
proof -
  let ?k = "get_cache_key (hash_secret_of_seed 1) (lit ''sourdough bread recipe'')"
  have stored: "example_cache (cache_file_of ?k) = Some (Pickled example_envelope)"
    by (simp add: example_cache_def)
  have stamp: "stored_timestamp example_runtime example_envelope = Some 63929390400000000"
    by (simp add: stored_timestamp_def example_envelope_def example_runtime_def)
  have within: "(63929394000000000::int) - 63929390400000000 < 24 * 3600 * 1000000"
    by simp
  have full_day: "24 * 3600 * 1000000 \<le> (63929476800000000::int) - 63929390400000000"
    by simp
  have later: "24 * 3600 * 1000000 \<le> (63929480400000000::int) - 63929390400000000"
    by simp
  have nothing: "(Map.empty :: cache) (cache_file_of ?k) = None"
    by simp
  from load_from_cache_miss_or_fresh [of example_runtime 63929394000000000 example_cache ?k]
    stored stamp within
  have fresh: "load_from_cache example_runtime 63929394000000000 example_cache ?k
      = Inr (Some example_envelope)"
    by blast
  from load_from_cache_miss_or_fresh [of example_runtime 63929476800000000 example_cache ?k]
    stored stamp full_day
  have day: "load_from_cache example_runtime 63929476800000000 example_cache ?k = Inr None"
    by blast
  from load_from_cache_miss_or_fresh [of example_runtime 63929480400000000 example_cache ?k]
    stored stamp later
  have stale: "load_from_cache example_runtime 63929480400000000 example_cache ?k = Inr None"
    by blast
  from load_from_cache_miss_or_fresh [of example_runtime 63929394000000000 Map.empty ?k]
    nothing
  have missing: "load_from_cache example_runtime 63929394000000000 Map.empty ?k = Inr None"
    by blast
  from fresh day stale missing show ?thesis by blast
qed

subsection \<open>Writing the cache\<close>

lemma fresh_success_envelope:
  assumes "requests (brave_search rt ev c q limit fd) = 1"
    and "returned (brave_search rt ev c q limit fd) = Inr e"
    and "status e = lit ''success''"
  obtains rs where
    "e = (success_envelope ev q rs (faker_user_agent ev) (faker_ipv4_public ev))
           \<lparr>searchParameters :=
              (searchParameters (success_envelope ev q rs (faker_user_agent ev)
                 (faker_ipv4_public ev)))
              \<lparr>fetched_at := FStr (isoformat rt (Naive (now_built ev)))\<rparr>\<rparr>"
    "cache_after (brave_search rt ev c q limit fd) =
       (case cache_write ev of
          Written \<Rightarrow> c(cache_file_of (get_cache_key (hash_secret rt) q) \<mapsto> Pickled e)
        | OpenFailed \<Rightarrow> c
        | DumpFailed \<Rightarrow> c(cache_file_of (get_cache_key (hash_secret rt) q) \<mapsto> Unreadable))"
proof (cases rule: brave_search_cases [of rt ev c q limit fd])
  case (hit e')
  with assms(1) show ?thesis by simp
next
  case raises
  with assms(1) show ?thesis by simp
next
  case (failed enc m)
  with assms(2,3) show ?thesis by (auto simp: error_envelope_def status_distinct)
next
  case (fetched enc items rs)
  from fetched(7) assms(2) show ?thesis
    unfolding save_to_cache_success_envelope
    by (intro that [of rs]) (auto simp: Let_def)
qed

lemma cache_hit_returns_stored:
  assumes "requests (brave_search rt ev c q limit fd) = 0"
    and "returned (brave_search rt ev c q limit fd) = Inr e"
  shows "c (cache_file_of (get_cache_key (hash_secret rt) q)) = Some (Pickled e)"
proof (cases rule: brave_search_cases [of rt ev c q limit fd])
  case (hit e')
  with assms(2) show ?thesis using load_from_cache_stored by simp
next
  case raises
  with assms(2) show ?thesis by simp
next
  case (failed enc m)
  with assms(1) show ?thesis by simp
next
  case (fetched enc items rs)
  with assms(1) show ?thesis by simp
qed

text \<open>
  Claim C10 (\<^verbatim>\<open>save_to_cache\<close> works in place). \<^verbatim>\<open>save_to_cache\<close> replaces the
  \<^verbatim>\<open>fetched_at\<close> entry of the dictionary it is given by its ISO text and changes nothing
  else, whatever becomes of the file. So the success envelope that \<^verbatim>\<open>brave_search\<close>
  returns after a fetch carries \<^verbatim>\<open>fetched_at\<close> as ISO text; when the write succeeds it is
  the record stored under the query's key, and a later call of the same process that is
  answered from the cache returns an equal envelope.
\<close>

theorem save_to_cache_in_place:
  "(\<forall>d. fetched_at (searchParameters data) = FDatetime d \<longrightarrow>
        fst (save_to_cache rt w c0 k data)
          = data\<lparr>searchParameters :=
                   (searchParameters data)\<lparr>fetched_at := FStr (isoformat rt d)\<rparr>\<rparr>)
   \<and> (requests (brave_search rt ev c q limit fd) = 1
        \<and> returned (brave_search rt ev c q limit fd) = Inr e
        \<and> status e = lit ''success'' \<longrightarrow>
        fetched_at (searchParameters e) = FStr (isoformat rt (Naive (now_built ev)))
        \<and> (cache_write ev = Written \<longrightarrow>
             cache_after (brave_search rt ev c q limit fd)
               (cache_file_of (get_cache_key (hash_secret rt) q)) = Some (Pickled e)
             \<and> (\<forall>ev2 limit2 fd2 e2.
                   requests (brave_search rt ev2 (cache_after (brave_search rt ev c q limit fd))
                     q limit2 fd2) = 0
                   \<and> returned (brave_search rt ev2 (cache_after (brave_search rt ev c q limit fd))
                     q limit2 fd2) = Inr e2
                   \<longrightarrow> e2 = e)))"
proof (intro conjI allI impI)
  fix d
  assume "fetched_at (searchParameters data) = FDatetime d"
  then show "fst (save_to_cache rt w c0 k data)
      = data\<lparr>searchParameters := (searchParameters data)\<lparr>fetched_at := FStr (isoformat rt d)\<rparr>\<rparr>"
    by (simp add: save_to_cache_def Let_def split: write_outcome.splits)
next
  assume first: "requests (brave_search rt ev c q limit fd) = 1
        \<and> returned (brave_search rt ev c q limit fd) = Inr e
        \<and> status e = lit ''success''"
  then obtain rs where e: "e = (success_envelope ev q rs (faker_user_agent ev) (faker_ipv4_public ev))
           \<lparr>searchParameters :=
              (searchParameters (success_envelope ev q rs (faker_user_agent ev)
                 (faker_ipv4_public ev)))
              \<lparr>fetched_at := FStr (isoformat rt (Naive (now_built ev)))\<rparr>\<rparr>"
    using fresh_success_envelope by blast
  then show "fetched_at (searchParameters e) = FStr (isoformat rt (Naive (now_built ev)))"
    by simp
next
  assume first: "requests (brave_search rt ev c q limit fd) = 1
        \<and> returned (brave_search rt ev c q limit fd) = Inr e
        \<and> status e = lit ''success''"
    and written: "cache_write ev = Written"
  then have "cache_after (brave_search rt ev c q limit fd) =
       (case cache_write ev of
          Written \<Rightarrow> c(cache_file_of (get_cache_key (hash_secret rt) q) \<mapsto> Pickled e)
        | OpenFailed \<Rightarrow> c
        | DumpFailed \<Rightarrow> c(cache_file_of (get_cache_key (hash_secret rt) q) \<mapsto> Unreadable))"
    using fresh_success_envelope by blast
  with written show "cache_after (brave_search rt ev c q limit fd)
      (cache_file_of (get_cache_key (hash_secret rt) q)) = Some (Pickled e)"
    by simp
next
  fix ev2 limit2 fd2 e2
  assume first: "requests (brave_search rt ev c q limit fd) = 1
        \<and> returned (brave_search rt ev c q limit fd) = Inr e
        \<and> status e = lit ''success''"
    and written: "cache_write ev = Written"
    and second: "requests (brave_search rt ev2 (cache_after (brave_search rt ev c q limit fd))
                     q limit2 fd2) = 0
        \<and> returned (brave_search rt ev2 (cache_after (brave_search rt ev c q limit fd))
                     q limit2 fd2) = Inr e2"
  from first have "cache_after (brave_search rt ev c q limit fd) =
       (case cache_write ev of
          Written \<Rightarrow> c(cache_file_of (get_cache_key (hash_secret rt) q) \<mapsto> Pickled e)
        | OpenFailed \<Rightarrow> c
        | DumpFailed \<Rightarrow> c(cache_file_of (get_cache_key (hash_secret rt) q) \<mapsto> Unreadable))"
    using fresh_success_envelope by blast
  with written have "cache_after (brave_search rt ev c q limit fd)
      (cache_file_of (get_cache_key (hash_secret rt) q)) = Some (Pickled e)"
    by simp
  moreover from second have "cache_after (brave_search rt ev c q limit fd)
      (cache_file_of (get_cache_key (hash_secret rt) q)) = Some (Pickled e2)"
    using cache_hit_returns_stored by blast
  ultimately show "e2 = e" by simp
qed

theorem save_to_cache_in_place_witness:
  "requests (brave_search example_runtime example_env Map.empty
       (lit ''sourdough bread recipe'') 5 None) = 1
   \<and> returned (brave_search example_runtime example_env Map.empty
       (lit ''sourdough bread recipe'') 5 None) = Inr example_envelope
   \<and> status example_envelope = lit ''success''
   \<and> cache_write example_env = Written
   \<and> fetched_at (searchParameters example_envelope)
       = FStr (isoformat example_runtime (Naive (now_built example_env)))
   \<and> fetched_at (searchParameters example_envelope) = FStr (lit ''2026-11-04T12:00:00'')
   \<and> cache_after (brave_search example_runtime example_env Map.empty
       (lit ''sourdough bread recipe'') 5 None)
       (cache_file_of (get_cache_key (hash_secret example_runtime)
          (lit ''sourdough bread recipe''))) = Some (Pickled example_envelope)
   \<and> returned (brave_search example_runtime (example_env\<lparr>now_load := 63929394000000000\<rparr>)
       (cache_after (brave_search example_runtime example_env Map.empty
          (lit ''sourdough bread recipe'') 5 None))
       (lit ''sourdough bread recipe'') 1 (Some (lit ''wikipedia.org''))) = Inr example_envelope"
proof -
  let ?first = "brave_search example_runtime example_env Map.empty
       (lit ''sourdough bread recipe'') 5 None"
  have f1: "requests ?first = 1" and f2: "returned ?first = Inr example_envelope"
    by (simp_all add: example_first_call)
  have f3: "status example_envelope = lit ''success''"
    by (simp add: example_envelope_def)
  have f4: "cache_write example_env = Written"
    by (simp add: example_env_def)
  have f5: "fetched_at (searchParameters example_envelope) = FStr (lit ''2026-11-04T12:00:00'')"
    by (simp add: example_envelope_def)
  have s: "returned (brave_search example_runtime
       (example_env\<lparr>now_load := 63929394000000000\<rparr>) (cache_after ?first)
       (lit ''sourdough bread recipe'') 1 (Some (lit ''wikipedia.org''))) = Inr example_envelope"
    by (simp add: example_first_call example_second_call)
  from save_to_cache_in_place [where rt = example_runtime and ev = example_env
      and c = Map.empty and q = "lit ''sourdough bread recipe''" and limit = 5 and fd = None
      and e = example_envelope] f1 f2 f3 f4
  have "fetched_at (searchParameters example_envelope)
       = FStr (isoformat example_runtime (Naive (now_built example_env)))
     \<and> cache_after ?first (cache_file_of (get_cache_key (hash_secret example_runtime)
          (lit ''sourdough bread recipe''))) = Some (Pickled example_envelope)"
    by blast
  with f1 f2 f3 f4 f5 s show ?thesis by blast
qed

end
